theory Spec2Isabelle
  imports Complex_Main
begin

section \<open>JavaScript values\<close>

text \<open>
  The constructor of \<open>TicketTypeRequest\<close> receives arbitrary JavaScript values and tests them
  with \<open>Array.prototype.includes\<close> and \<open>Number.isInteger\<close>. A Number is a finite value, an
  infinity or NaN; every finite double is a rational, so the finite values are modelled as
  rationals. Objects, arrays, symbols and functions pass neither test and are one constructor.
\<close>

datatype js_number = Finite rat | PosInfinity | NegInfinity | NaN

datatype js_value =
    JsUndefined
  | JsNull
  | JsBoolean bool
  | JsNumber js_number
  | JsString string
  | JsObject

text \<open>\<open>Number.isInteger(v)\<close>: \<open>v\<close> is a Number, finite, and equal to its floor.\<close>

fun Number_isInteger :: "js_value \<Rightarrow> bool" where
  "Number_isInteger (JsNumber (Finite q)) = (of_int \<lfloor>q\<rfloor> = q)"
| "Number_isInteger _ = False"

text \<open>The integer held by a Number that passed \<open>Number.isInteger\<close>.\<close>

fun int_of_js :: "js_value \<Rightarrow> int" where
  "int_of_js (JsNumber (Finite q)) = \<lfloor>q\<rfloor>"
| "int_of_js _ = 0"

text \<open>Truthiness, as tested by \<open>if (...)\<close>.\<close>

fun truthy :: "js_value \<Rightarrow> bool" where
  "truthy JsUndefined = False"
| "truthy JsNull = False"
| "truthy (JsBoolean b) = b"
| "truthy (JsNumber (Finite q)) = (q \<noteq> 0)"
| "truthy (JsNumber NaN) = False"
| "truthy (JsNumber _) = True"
| "truthy (JsString s) = (s \<noteq> [])"
| "truthy JsObject = True"

text \<open>
  Thrown values. A \<open>throw\<close> statement throws any value: an \<open>Error\<close> object, of which the
  catch clause of \<open>purchaseTickets\<close> reads the class (\<open>instanceof InvalidPurchaseException\<close>)
  and the \<open>message\<close>, or any other value. Reading \<open>error.message\<close> of a thrown \<open>null\<close> or
  \<open>undefined\<close> raises a \<open>TypeError\<close>; of a thrown boolean, number, string or object without
  that property it gives \<open>undefined\<close>, printed as such. Any other thrown object is given by
  what the catch clause can see of it: whether it is an instance of
  \<open>InvalidPurchaseException\<close>, and what reading and printing its \<open>message\<close> gives, a text
  or a value thrown in turn (by a getter, or by the conversion of a Symbol to a string).
\<close>

datatype js_error =
    TypeError string
  | InvalidPurchaseException string
  | Error string

fun message :: "js_error \<Rightarrow> string" where
  "message (TypeError m) = m"
| "message (InvalidPurchaseException m) = m"
| "message (Error m) = m"

datatype js_thrown =
    ErrorObject js_error
  | ThrownValue js_value
  | ThrownObject bool "js_thrown + string"

fun instanceof_InvalidPurchaseException :: "js_thrown \<Rightarrow> bool" where
  "instanceof_InvalidPurchaseException (ErrorObject (InvalidPurchaseException m)) = True"
| "instanceof_InvalidPurchaseException (ThrownObject b r) = b"
| "instanceof_InvalidPurchaseException _ = False"

text \<open>The text of \<open>${error.message}\<close>, or what is thrown by reading and printing it.\<close>

fun read_message :: "js_thrown \<Rightarrow> js_thrown + string" where
  "read_message (ErrorObject e) = Inr (message e)"
| "read_message (ThrownValue JsUndefined) =
     Inl (ErrorObject (TypeError ''Cannot read properties of undefined (reading 'message')''))"
| "read_message (ThrownValue JsNull) =
     Inl (ErrorObject (TypeError ''Cannot read properties of null (reading 'message')''))"
| "read_message (ThrownValue v) = Inr ''undefined''"
| "read_message (ThrownObject b r) = r"

text \<open>A call either returns a value or throws.\<close>

datatype 'a outcome = Returns 'a | Throws js_thrown

text \<open>
  What the catch clause itself throws on the outcome of a call: nothing when the call
  returned or threw a value whose message can be read and printed.
\<close>

fun unreadable :: "'a outcome \<Rightarrow> js_thrown option" where
  "unreadable (Returns v) = None"
| "unreadable (Throws t) = (case read_message t of Inl e \<Rightarrow> Some e | Inr m \<Rightarrow> None)"

section \<open>The Numbers of the service\<close>

text \<open>
  Quantities are Numbers that passed \<open>Number.isInteger\<close>, and the prices and the cap are
  integers, so every Number that \<open>TicketService\<close> computes is an integer-valued double, an
  infinity or NaN. JavaScript adds and multiplies doubles with the exact result rounded to
  the nearest double, ties to the even significand, and to an infinity from \<open>2^1024 - 2^970\<close>
  on. \<open>round_double\<close> is that rounding on integers: \<open>ulp_exp a\<close> is the number of low bits
  that a 53-bit significand cannot hold. Negative zero is not told apart from zero: the sums
  below start from \<open>+0\<close> and so never are \<open>-0\<close>, and \<open>x + -0\<close> is \<open>x\<close>. An integer
  that no double holds, as \<open>2^53 + 1\<close>, is a quantity here but never one of the code; the
  properties below are proved for these too.
\<close>

datatype num_value = IntegerValue int | PositiveInfinity | NegativeInfinity | NotANumber

function ulp_exp :: "int \<Rightarrow> nat" where
  "ulp_exp a = (if a < 2 ^ 53 then 0 else Suc (ulp_exp (a div 2)))"
  by pat_completeness auto
termination
  by (relation "measure nat") auto

declare ulp_exp.simps [simp del]

definition round_double :: "int \<Rightarrow> num_value" where
  "round_double n =
     (let a = \<bar>n\<bar>;
          e = ulp_exp a;
          q = a div 2 ^ e;
          r = a mod 2 ^ e;
          q' = (if 2 * r > 2 ^ e \<or> (2 * r = 2 ^ e \<and> odd q) then q + 1 else q);
          m = q' * 2 ^ e
      in if m \<ge> 2 ^ 1024 then (if n < 0 then NegativeInfinity else PositiveInfinity)
         else IntegerValue (if n < 0 then - m else m))"

text \<open>\<open>x + y\<close>.\<close>

fun js_add :: "num_value \<Rightarrow> num_value \<Rightarrow> num_value" where
  "js_add (IntegerValue a) (IntegerValue b) = round_double (a + b)"
| "js_add NotANumber y = NotANumber"
| "js_add x NotANumber = NotANumber"
| "js_add PositiveInfinity NegativeInfinity = NotANumber"
| "js_add NegativeInfinity PositiveInfinity = NotANumber"
| "js_add PositiveInfinity y = PositiveInfinity"
| "js_add NegativeInfinity y = NegativeInfinity"
| "js_add (IntegerValue a) y = y"

fun js_negate :: "num_value \<Rightarrow> num_value" where
  "js_negate (IntegerValue a) = IntegerValue (- a)"
| "js_negate PositiveInfinity = NegativeInfinity"
| "js_negate NegativeInfinity = PositiveInfinity"
| "js_negate NotANumber = NotANumber"

text \<open>\<open>x * y\<close>: zero times an infinity is NaN.\<close>

fun js_mul :: "num_value \<Rightarrow> num_value \<Rightarrow> num_value" where
  "js_mul (IntegerValue a) (IntegerValue b) = round_double (a * b)"
| "js_mul NotANumber y = NotANumber"
| "js_mul x NotANumber = NotANumber"
| "js_mul (IntegerValue a) y = (if a = 0 then NotANumber else if 0 < a then y else js_negate y)"
| "js_mul x (IntegerValue b) = (if b = 0 then NotANumber else if 0 < b then x else js_negate x)"
| "js_mul x y = (if x = y then PositiveInfinity else NegativeInfinity)"

text \<open>\<open>x > y\<close>: false when either side is NaN.\<close>

fun js_gt :: "num_value \<Rightarrow> num_value \<Rightarrow> bool" where
  "js_gt (IntegerValue a) (IntegerValue b) = (a > b)"
| "js_gt NotANumber y = False"
| "js_gt x NotANumber = False"
| "js_gt PositiveInfinity y = (y \<noteq> PositiveInfinity)"
| "js_gt x NegativeInfinity = (x \<noteq> NegativeInfinity)"
| "js_gt x y = False"

section \<open>TicketTypeRequest\<close>

text \<open>
  The private field \<open>#type\<close> only ever holds one of the three strings of \<open>#Type\<close>, so it is a
  three-valued datatype; \<open>type_name\<close> gives the string. \<open>#noOfTickets\<close> holds a Number that
  passed \<open>Number.isInteger\<close>, read as an integer.
\<close>

datatype ticket_type = ADULT | CHILD | INFANT

fun type_name :: "ticket_type \<Rightarrow> string" where
  "type_name ADULT = ''ADULT''"
| "type_name CHILD = ''CHILD''"
| "type_name INFANT = ''INFANT''"

record TicketTypeRequest =
  priv_type :: ticket_type
  priv_noOfTickets :: int

definition priv_Type :: "ticket_type list" where
  "priv_Type = [ADULT, CHILD, INFANT]"

text \<open>\<open>this.#Type.includes(type)\<close>, returning the matching entry.\<close>

fun Type_includes :: "ticket_type list \<Rightarrow> js_value \<Rightarrow> ticket_type option" where
  "Type_includes ts (JsString s) = find (\<lambda>t. type_name t = s) ts"
| "Type_includes ts _ = None"

fun join :: "string \<Rightarrow> string list \<Rightarrow> string" where
  "join sep [] = []"
| "join sep [x] = x"
| "join sep (x # y # ys) = x @ sep @ join sep (y # ys)"

definition TicketTypeRequest_new :: "js_value \<Rightarrow> js_value \<Rightarrow> js_error + TicketTypeRequest" where
  "TicketTypeRequest_new type noOfTickets =
     (case Type_includes priv_Type type of
        None \<Rightarrow>
          Inl (TypeError (''type must be one of '' @ join '', '' (map type_name (butlast priv_Type))
                          @ '', or '' @ join '','' (map type_name [last priv_Type])))
      | Some t \<Rightarrow>
          if \<not> Number_isInteger noOfTickets
          then Inl (TypeError ''noOfTickets must be an integer'')
          else Inr \<lparr>priv_type = t, priv_noOfTickets = int_of_js noOfTickets\<rparr>)"

definition getNoOfTickets :: "TicketTypeRequest \<Rightarrow> int" where
  "getNoOfTickets this = priv_noOfTickets this"

definition getTicketType :: "TicketTypeRequest \<Rightarrow> ticket_type" where
  "getTicketType this = priv_type this"

text \<open>
  The two fields are private (\<open>#type\<close>, \<open>#noOfTickets\<close>), so after construction only the
  members of the class can reach them, and the class has these two members. A call of a
  member gives the value returned and the object as the call leaves it; \<open>invoke_all\<close> is
  the object after a sequence of calls.
\<close>

datatype member = GetNoOfTickets | GetTicketType

fun invoke :: "member \<Rightarrow> TicketTypeRequest \<Rightarrow> js_value \<times> TicketTypeRequest" where
  "invoke GetNoOfTickets this = (JsNumber (Finite (of_int (getNoOfTickets this))), this)"
| "invoke GetTicketType this = (JsString (type_name (getTicketType this)), this)"

fun invoke_all :: "member list \<Rightarrow> TicketTypeRequest \<Rightarrow> TicketTypeRequest" where
  "invoke_all [] this = this"
| "invoke_all (m # ms) this = invoke_all ms (snd (invoke m this))"

section \<open>TicketService\<close>

text \<open>
  The two collaborators are arbitrary objects: a call may read and change a world \<open>'w\<close> of
  their own, and returns a value or throws. The execution state holds that world, the calls
  made to the collaborators in order, and the lines written to the console.
\<close>

datatype call = MakePayment int num_value | ReserveSeats int num_value

datatype console_line = Log string | ErrorLine string

record 'w exec_state =
  world :: 'w
  calls :: "call list"
  console :: "console_line list"

type_synonym 'w collaborator = "int \<Rightarrow> num_value \<Rightarrow> 'w \<Rightarrow> js_value outcome \<times> 'w"

record 'w TicketService =
  paymentService :: "'w collaborator"
  reservationService :: "'w collaborator"
  ticketPrices :: "ticket_type \<Rightarrow> int"
  maxTicketsPerPurchase :: int

definition TicketService_new :: "'w collaborator \<Rightarrow> 'w collaborator \<Rightarrow> 'w TicketService" where
  "TicketService_new payment reservation =
     \<lparr>paymentService = payment,
      reservationService = reservation,
      ticketPrices = (\<lambda>t. case t of INFANT \<Rightarrow> 0 | CHILD \<Rightarrow> 10 | ADULT \<Rightarrow> 20),
      maxTicketsPerPurchase = 20\<rparr>"

definition console_log :: "string \<Rightarrow> 'w exec_state \<Rightarrow> 'w exec_state" where
  "console_log m s = s\<lparr>console := console s @ [Log m]\<rparr>"

definition console_error :: "string \<Rightarrow> 'w exec_state \<Rightarrow> 'w exec_state" where
  "console_error m s = s\<lparr>console := console s @ [ErrorLine m]\<rparr>"

definition makePayment ::
  "'w TicketService \<Rightarrow> int \<Rightarrow> num_value \<Rightarrow> 'w exec_state
     \<Rightarrow> js_value outcome \<times> 'w exec_state" where
  "makePayment this accountId totalAmount s =
     (case paymentService this accountId totalAmount (world s) of
        (r, w) \<Rightarrow> (r, s\<lparr>world := w, calls := calls s @ [MakePayment accountId totalAmount]\<rparr>))"

definition reserveSeats ::
  "'w TicketService \<Rightarrow> int \<Rightarrow> num_value \<Rightarrow> 'w exec_state
     \<Rightarrow> js_value outcome \<times> 'w exec_state" where
  "reserveSeats this accountId numSeats s =
     (case reservationService this accountId numSeats (world s) of
        (r, w) \<Rightarrow> (r, s\<lparr>world := w, calls := calls s @ [ReserveSeats accountId numSeats]\<rparr>))"

definition isValidPurchaseRequest :: "'w TicketService \<Rightarrow> TicketTypeRequest list \<Rightarrow> bool" where
  "isValidPurchaseRequest this ticketTypeRequests =
     (let totalQuantity =
            foldl (\<lambda>total request. js_add total (IntegerValue (getNoOfTickets request)))
              (IntegerValue 0) ticketTypeRequests
      in if js_gt totalQuantity (IntegerValue (maxTicketsPerPurchase this)) then False
         else
           let hasAdultTicket =
                 list_ex (\<lambda>request. getTicketType request = ADULT) ticketTypeRequests;
               hasChildOrInfantWithoutAdult =
                 list_ex (\<lambda>request. (getTicketType request = CHILD
                                      \<or> getTicketType request = INFANT)
                                     \<and> \<not> hasAdultTicket) ticketTypeRequests
           in hasAdultTicket \<and> \<not> hasChildOrInfantWithoutAdult)"

definition calculateTotalAmount ::
  "'w TicketService \<Rightarrow> TicketTypeRequest list \<Rightarrow> num_value" where
  "calculateTotalAmount this ticketTypeRequests =
     foldl (\<lambda>total request.
              let ticketType = getTicketType request;
                  ticketQuantity = getNoOfTickets request
              in js_add total
                   (js_mul (IntegerValue (ticketPrices this ticketType))
                      (IntegerValue ticketQuantity)))
           (IntegerValue 0) ticketTypeRequests"

definition calculateNumSeatsToReserve :: "TicketTypeRequest list \<Rightarrow> num_value" where
  "calculateNumSeatsToReserve ticketTypeRequests =
     foldl (\<lambda>total request.
              let ticketType = getTicketType request;
                  ticketQuantity = getNoOfTickets request
              in js_add total
                   (if ticketType \<noteq> INFANT then IntegerValue ticketQuantity
                    else IntegerValue 0))
           (IntegerValue 0) ticketTypeRequests"

text \<open>
  The body of the \<open>try\<close> block. It ends normally (by \<open>return\<close> or by reaching its end) or with
  a thrown value; in both cases the local variable \<open>numSeatsToReserve\<close> has the value given in
  the second component, which is what the statement after the \<open>catch\<close> returns.
\<close>

definition try_block ::
  "'w TicketService \<Rightarrow> int \<Rightarrow> TicketTypeRequest list \<Rightarrow> 'w exec_state
     \<Rightarrow> js_thrown option \<times> num_value \<times> 'w exec_state" where
  "try_block this accountId ticketTypeRequests s =
     (if \<not> isValidPurchaseRequest this ticketTypeRequests
      then (None, IntegerValue 0,
            console_log ''Not a valid Ticket Request. Please check the rules'' s)
      else
        let totalAmount = calculateTotalAmount this ticketTypeRequests in
        case makePayment this accountId totalAmount s of
          (Throws e, s1) \<Rightarrow> (Some e, IntegerValue 0, s1)
        | (Returns paid, s1) \<Rightarrow>
            if truthy paid then
              let numSeatsToReserve = calculateNumSeatsToReserve ticketTypeRequests in
              case reserveSeats this accountId numSeatsToReserve s1 of
                (Throws e, s2) \<Rightarrow> (Some e, numSeatsToReserve, s2)
              | (Returns v, s2) \<Rightarrow>
                  (None, numSeatsToReserve, console_log ''Ticket purchase successful!'' s2)
            else (None, IntegerValue 0,
                  console_log ''Payment failed. Ticket purchase unsuccessful.'' s1))"

text \<open>
  The \<open>catch\<close> clause: it logs the message of what was caught, or ends with what reading
  the message throws, which nothing catches.
\<close>

definition catch_block :: "js_thrown \<Rightarrow> 'w exec_state \<Rightarrow> js_thrown option \<times> 'w exec_state" where
  "catch_block error s =
     (if instanceof_InvalidPurchaseException error
      then (case read_message error of
              Inl e \<Rightarrow> (Some e, s)
            | Inr m \<Rightarrow> (None, console_error (''InvalidPurchaseException: '' @ m) s))
      else (case read_message error of
              Inl e \<Rightarrow> (Some e, s)
            | Inr m \<Rightarrow> (None, console_error (''An unexpected error occurred: '' @ m) s)))"

text \<open>\<open>purchaseTickets\<close> returns a Number (\<open>Inr\<close>) or throws (\<open>Inl\<close>).\<close>

definition purchaseTickets ::
  "'w TicketService \<Rightarrow> int \<Rightarrow> TicketTypeRequest list \<Rightarrow> 'w exec_state
     \<Rightarrow> (js_thrown + num_value) \<times> 'w exec_state" where
  "purchaseTickets this accountId ticketTypeRequests s =
     (if accountId \<le> 0
      then (Inr (IntegerValue 0), console_log ''Please provide a valid Account ID'' s)
      else
        case try_block this accountId ticketTypeRequests s of
          (None, numSeatsToReserve, s') \<Rightarrow> (Inr numSeatsToReserve, s')
        | (Some error, numSeatsToReserve, s') \<Rightarrow>
            (case catch_block error s' of
               (None, s'') \<Rightarrow> (Inr numSeatsToReserve, s'')
             | (Some e, s'') \<Rightarrow> (Inl e, s'')))"

text \<open>
  What a caller observes of one purchase: the number returned or the error thrown, and the
  calls made to the collaborators during it (those appended to the calls of the state it
  started in).
\<close>

definition seatsReturned ::
  "'w TicketService \<Rightarrow> int \<Rightarrow> TicketTypeRequest list \<Rightarrow> 'w exec_state
     \<Rightarrow> js_thrown + num_value" where
  "seatsReturned this accountId ticketTypeRequests s =
     fst (purchaseTickets this accountId ticketTypeRequests s)"

definition callsMade ::
  "'w TicketService \<Rightarrow> int \<Rightarrow> TicketTypeRequest list \<Rightarrow> 'w exec_state \<Rightarrow> call list" where
  "callsMade this accountId ticketTypeRequests s =
     drop (length (calls s)) (calls (snd (purchaseTickets this accountId ticketTypeRequests s)))"

text \<open>The price table as the specification words it: INFANT = 0, CHILD = 10, ADULT = 20.\<close>

definition unitPrice :: "ticket_type \<Rightarrow> int" where
  "unitPrice t = (case t of INFANT \<Rightarrow> 0 | CHILD \<Rightarrow> 10 | ADULT \<Rightarrow> 20)"

subsection \<open>The collaborators of the test suite\<close>

text \<open>
  \<open>TicketServiceTest.js\<close> mocks the payment service by \<open>makePayment: () => true\<close> (and
  \<open>() => false\<close> in the test of a failed payment) and the reservation service by
  \<open>reserveSeats: () => true\<close>. Two reservation services that throw are added: one throws an
  \<open>Error\<close>, the other \<open>null\<close>.
\<close>

definition paymentServiceMock :: "unit collaborator" where
  "paymentServiceMock = (\<lambda>accountId totalAmount w. (Returns (JsBoolean True), w))"

definition paymentServiceMockFalse :: "unit collaborator" where
  "paymentServiceMockFalse = (\<lambda>accountId totalAmount w. (Returns (JsBoolean False), w))"

definition reservationServiceMock :: "unit collaborator" where
  "reservationServiceMock = (\<lambda>accountId numSeats w. (Returns (JsBoolean True), w))"

definition reservationServiceThrowing :: "unit collaborator" where
  "reservationServiceThrowing =
     (\<lambda>accountId numSeats w. (Throws (ErrorObject (Error ''reservation failed'')), w))"

definition reservationServiceThrowingNull :: "unit collaborator" where
  "reservationServiceThrowingNull =
     (\<lambda>accountId numSeats w. (Throws (ThrownValue JsNull), w))"

definition ticketService :: "unit TicketService" where
  "ticketService = TicketService_new paymentServiceMock reservationServiceMock"

definition init :: "unit exec_state" where
  "init = \<lparr>world = (), calls = [], console = []\<rparr>"

definition request :: "ticket_type \<Rightarrow> int \<Rightarrow> TicketTypeRequest" where
  "request t n = \<lparr>priv_type = t, priv_noOfTickets = n\<rparr>"

section \<open>Properties\<close>

subsection \<open>Exact arithmetic below \<open>2^53\<close>\<close>

lemma ulp_exp_small: "a < 2 ^ 53 \<Longrightarrow> ulp_exp a = 0"
  by (subst ulp_exp.simps) simp

lemma round_double_exact: "\<bar>n\<bar> < 2 ^ 53 \<Longrightarrow> round_double n = IntegerValue n"
proof -
  assume small: "\<bar>n\<bar> < 2 ^ 53"
  then have e: "ulp_exp \<bar>n\<bar> = 0"
    by (rule ulp_exp_small)
  have "\<bar>n\<bar> < 2 ^ 1024"
    using small by (rule order_less_trans) simp
  then have below: "\<not> 2 ^ 1024 \<le> \<bar>n\<bar>"
    by simp
  have "round_double n = IntegerValue (if n < 0 then - \<bar>n\<bar> else \<bar>n\<bar>)"
    unfolding round_double_def Let_def e using below by simp
  then show ?thesis by simp
qed

lemma sum_list_abs_nonneg: "0 \<le> (\<Sum>x\<leftarrow>xs. \<bar>f x :: int\<bar>)"
  by (induction xs) simp_all

lemma abs_le_sum_list_abs:
  "x \<in> set xs \<Longrightarrow> \<bar>f x\<bar> \<le> (\<Sum>y\<leftarrow>xs. \<bar>f y :: int\<bar>)"
proof (induction xs)
  case Nil
  then show ?case by simp
next
  case (Cons y ys)
  show ?case
    using Cons sum_list_abs_nonneg [of f ys] by auto
qed

lemma foldl_js_add_exact:
  assumes "\<forall>x\<in>set xs. g x = IntegerValue (f x)"
    and "\<bar>a\<bar> + (\<Sum>x\<leftarrow>xs. \<bar>f x\<bar>) < 2 ^ 53"
  shows "foldl (\<lambda>total x. js_add total (g x)) (IntegerValue a) xs
           = IntegerValue (a + (\<Sum>x\<leftarrow>xs. f x))"
  using assms
proof (induction xs arbitrary: a)
  case Nil
  then show ?case by simp
next
  case (Cons x xs)
  have rest: "0 \<le> (\<Sum>y\<leftarrow>xs. \<bar>f y\<bar>)"
    by (rule sum_list_abs_nonneg)
  have step: "js_add (IntegerValue a) (g x) = IntegerValue (a + f x)"
    using Cons.prems rest by (simp add: round_double_exact)
  have "foldl (\<lambda>total x. js_add total (g x)) (IntegerValue (a + f x)) xs
          = IntegerValue (a + f x + (\<Sum>y\<leftarrow>xs. f y))"
    using Cons.prems by (intro Cons.IH) auto
  then show ?case
    by (simp add: step add.assoc)
qed

lemma totalQuantity_exact:
  assumes "(\<Sum>r\<leftarrow>reqs. \<bar>getNoOfTickets r\<bar>) < 2 ^ 53"
  shows "foldl (\<lambda>total request. js_add total (IntegerValue (getNoOfTickets request)))
           (IntegerValue 0) reqs
         = IntegerValue (\<Sum>r\<leftarrow>reqs. getNoOfTickets r)"
  using foldl_js_add_exact [of reqs "\<lambda>r. IntegerValue (getNoOfTickets r)" getNoOfTickets 0] assms
  by simp

lemma isValidPurchaseRequest_no_adult:
  "\<not> list_ex (\<lambda>r. getTicketType r = ADULT) reqs \<Longrightarrow> \<not> isValidPurchaseRequest this reqs"
  by (simp add: isValidPurchaseRequest_def Let_def)

lemma isValidPurchaseRequest_exact:
  assumes "(\<Sum>r\<leftarrow>reqs. \<bar>getNoOfTickets r\<bar>) < 2 ^ 53"
  shows "isValidPurchaseRequest this reqs \<longleftrightarrow>
           (\<Sum>r\<leftarrow>reqs. getNoOfTickets r) \<le> maxTicketsPerPurchase this
           \<and> list_ex (\<lambda>r. getTicketType r = ADULT) reqs"
  unfolding isValidPurchaseRequest_def totalQuantity_exact [OF assms]
  by (auto simp: Let_def list_ex_iff)

lemma unitPrice_bounds: "0 \<le> unitPrice t \<and> unitPrice t \<le> 20"
  by (cases t) (simp_all add: unitPrice_def)

lemma price_abs_le: "\<bar>unitPrice t * q\<bar> \<le> 20 * \<bar>q\<bar>"
proof -
  have "\<bar>unitPrice t * q\<bar> = unitPrice t * \<bar>q\<bar>"
    using unitPrice_bounds [of t] by (simp add: abs_mult)
  also have "\<dots> \<le> 20 * \<bar>q\<bar>"
    using unitPrice_bounds [of t] by (intro mult_right_mono) simp_all
  finally show ?thesis .
qed

lemma sum_price_abs_le:
  "(\<Sum>r\<leftarrow>reqs. \<bar>unitPrice (getTicketType r) * getNoOfTickets r\<bar>)
     \<le> 20 * (\<Sum>r\<leftarrow>reqs. \<bar>getNoOfTickets r\<bar>)"
proof (induction reqs)
  case Nil
  then show ?case by simp
next
  case (Cons r reqs)
  then show ?case
    using price_abs_le [of "getTicketType r" "getNoOfTickets r"] by simp
qed

lemma sum_abs_le_20: "(\<Sum>r\<leftarrow>reqs. \<bar>f r :: int\<bar>) \<le> 20 * (\<Sum>r\<leftarrow>reqs. \<bar>f r\<bar>)"
proof -
  show ?thesis
    using sum_list_abs_nonneg [of f reqs] by simp
qed

lemma calculateTotalAmount_exact:
  assumes "20 * (\<Sum>r\<leftarrow>reqs. \<bar>getNoOfTickets r\<bar>) < 2 ^ 53"
  shows "calculateTotalAmount (TicketService_new pay res) reqs
           = IntegerValue (\<Sum>r\<leftarrow>reqs. unitPrice (getTicketType r) * getNoOfTickets r)"
proof -
  let ?g = "\<lambda>r. js_mul (IntegerValue (unitPrice (getTicketType r)))
                   (IntegerValue (getNoOfTickets r))"
  let ?f = "\<lambda>r. unitPrice (getTicketType r) * getNoOfTickets r"
  have prices: "ticketPrices (TicketService_new pay res) = unitPrice"
    by (rule ext) (simp add: TicketService_new_def unitPrice_def)
  have bound: "(\<Sum>r\<leftarrow>reqs. \<bar>?f r\<bar>) < 2 ^ 53"
    using sum_price_abs_le [of reqs] assms by simp
  have each: "\<forall>r\<in>set reqs. ?g r = IntegerValue (?f r)"
  proof
    fix r assume "r \<in> set reqs"
    then have "\<bar>?f r\<bar> \<le> (\<Sum>r\<leftarrow>reqs. \<bar>?f r\<bar>)"
      by (rule abs_le_sum_list_abs [of r reqs ?f])
    with bound have "\<bar>?f r\<bar> < 2 ^ 53" by simp
    then show "?g r = IntegerValue (?f r)"
      by (simp add: round_double_exact)
  qed
  have "foldl (\<lambda>total r. js_add total (?g r)) (IntegerValue 0) reqs
          = IntegerValue (0 + (\<Sum>r\<leftarrow>reqs. ?f r))"
    using each bound by (intro foldl_js_add_exact) simp_all
  then show ?thesis
    by (simp add: calculateTotalAmount_def Let_def prices)
qed

lemma calculateNumSeatsToReserve_exact:
  assumes "(\<Sum>r\<leftarrow>reqs. \<bar>getNoOfTickets r\<bar>) < 2 ^ 53"
  shows "calculateNumSeatsToReserve reqs
           = IntegerValue (\<Sum>r\<leftarrow>filter (\<lambda>r. getTicketType r \<noteq> INFANT) reqs. getNoOfTickets r)"
proof -
  let ?f = "\<lambda>r. if getTicketType r \<noteq> INFANT then getNoOfTickets r else 0"
  let ?g = "\<lambda>r. if getTicketType r \<noteq> INFANT then IntegerValue (getNoOfTickets r)
                  else IntegerValue 0"
  have "(\<Sum>r\<leftarrow>reqs. \<bar>?f r\<bar>) \<le> (\<Sum>r\<leftarrow>reqs. \<bar>getNoOfTickets r\<bar>)"
    by (rule sum_list_mono) simp
  with assms have bound: "(\<Sum>r\<leftarrow>reqs. \<bar>?f r\<bar>) < 2 ^ 53"
    by simp
  have "foldl (\<lambda>total r. js_add total (?g r)) (IntegerValue 0) reqs
          = IntegerValue (0 + (\<Sum>r\<leftarrow>reqs. ?f r))"
    using bound by (intro foldl_js_add_exact) simp_all
  moreover have "(\<Sum>r\<leftarrow>reqs. ?f r)
          = (\<Sum>r\<leftarrow>filter (\<lambda>r. getTicketType r \<noteq> INFANT) reqs. getNoOfTickets r)"
    by (induction reqs) simp_all
  ultimately show ?thesis
    by (simp add: calculateNumSeatsToReserve_def Let_def)
qed

subsection \<open>The ways through \<open>purchaseTickets\<close>\<close>

lemma purchase_bad_account:
  "accountId \<le> 0 \<Longrightarrow>
     purchaseTickets this accountId reqs s
       = (Inr (IntegerValue 0), console_log ''Please provide a valid Account ID'' s)"
  by (simp add: purchaseTickets_def)

lemma purchase_invalid:
  "0 < accountId \<Longrightarrow> \<not> isValidPurchaseRequest this reqs \<Longrightarrow>
     purchaseTickets this accountId reqs s
       = (Inr (IntegerValue 0),
          console_log ''Not a valid Ticket Request. Please check the rules'' s)"
  by (simp add: purchaseTickets_def try_block_def)

lemma no_calls_console_log: "calls (console_log m s) = calls s"
  by (simp add: console_log_def)

lemma purchase_rejected_no_calls:
  "accountId \<le> 0 \<or> \<not> isValidPurchaseRequest this reqs \<Longrightarrow>
     seatsReturned this accountId reqs s = Inr (IntegerValue 0)
     \<and> callsMade this accountId reqs s = []"
  by (cases "accountId \<le> 0")
     (auto simp: seatsReturned_def callsMade_def purchase_bad_account purchase_invalid
        no_calls_console_log)

lemmas purchase_defs =
  seatsReturned_def callsMade_def purchaseTickets_def try_block_def catch_block_def
  makePayment_def reserveSeats_def console_log_def console_error_def

lemma purchase_valid:
  assumes "0 < accountId" and "isValidPurchaseRequest this reqs"
    and pay: "paymentService this accountId (calculateTotalAmount this reqs) (world s) = (po, w)"
    and res: "reservationService this accountId (calculateNumSeatsToReserve reqs) w = (ro, w')"
  shows "seatsReturned this accountId reqs s =
           (case unreadable po of
              Some e \<Rightarrow> Inl e
            | None \<Rightarrow>
                (case po of
                   Throws t \<Rightarrow> Inr (IntegerValue 0)
                 | Returns paid \<Rightarrow>
                     if truthy paid then
                       (case unreadable ro of
                          Some e \<Rightarrow> Inl e
                        | None \<Rightarrow> Inr (calculateNumSeatsToReserve reqs))
                     else Inr (IntegerValue 0)))
         \<and> callsMade this accountId reqs s =
           MakePayment accountId (calculateTotalAmount this reqs) #
           (case po of
              Returns paid \<Rightarrow>
                if truthy paid then [ReserveSeats accountId (calculateNumSeatsToReserve reqs)]
                else []
            | Throws e \<Rightarrow> [])"
proof -
  have pos: "\<not> accountId \<le> 0"
    using assms(1) by simp
  note facts = pos assms(2) pay res purchase_defs Let_def
  show ?thesis
  proof (cases po)
    case (Throws t)
    then show ?thesis
      by (cases "read_message t") (simp_all add: facts)
  next
    case paid: (Returns paid)
    show ?thesis
    proof (cases "truthy paid")
      case False
      with paid show ?thesis by (simp add: facts)
    next
      case True
      show ?thesis
      proof (cases ro)
        case (Returns v)
        with paid True show ?thesis by (simp add: facts)
      next
        case (Throws t)
        with paid True show ?thesis
          by (cases "read_message t") (simp_all add: facts)
      qed
    qed
  qed
qed

lemma purchase_valid_calls:
  assumes "0 < accountId" and "isValidPurchaseRequest this reqs"
    and pay: "fst (paymentService this accountId (calculateTotalAmount this reqs) (world s)) = po"
  shows "callsMade this accountId reqs s =
           MakePayment accountId (calculateTotalAmount this reqs) #
           (case po of
              Returns paid \<Rightarrow>
                if truthy paid then [ReserveSeats accountId (calculateNumSeatsToReserve reqs)]
                else []
            | Throws e \<Rightarrow> [])"
  using purchase_valid [OF assms(1,2) surjective_pairing surjective_pairing, of s] pay
  by simp

lemma service_fields:
  "paymentService (TicketService_new pay res) = pay"
  "reservationService (TicketService_new pay res) = res"
  "maxTicketsPerPurchase (TicketService_new pay res) = 20"
  by (simp_all add: TicketService_new_def)

lemma sum_list_nonneg_zero:
  "(\<Sum>r\<leftarrow>reqs. f r) = (0::int) \<Longrightarrow> \<forall>r\<in>set reqs. 0 \<le> f r \<Longrightarrow> \<forall>r\<in>set reqs. f r = 0"
proof (induction reqs)
  case Nil
  then show ?case by simp
next
  case (Cons x xs)
  have "0 \<le> (\<Sum>r\<leftarrow>xs. f r)"
    using Cons.prems(2) by (intro sum_list_nonneg) auto
  with Cons.prems have "f x = 0" and "(\<Sum>r\<leftarrow>xs. f r) = 0"
    by auto
  with Cons show ?case by simp
qed

lemma all_zero_sums:
  assumes "\<forall>r\<in>set reqs. getNoOfTickets r = 0"
  shows "(\<Sum>r\<leftarrow>reqs. \<bar>getNoOfTickets r\<bar>) = 0"
    and "(\<Sum>r\<leftarrow>reqs. unitPrice (getTicketType r) * getNoOfTickets r) = 0"
    and "(\<Sum>r\<leftarrow>filter (\<lambda>r. getTicketType r \<noteq> INFANT) reqs. getNoOfTickets r) = 0"
  using assms by (induction reqs) simp_all

lemma invoke_all_unchanged: "invoke_all ms this = this"
proof (induction ms)
  case Nil
  then show ?case by simp
next
  case (Cons m ms)
  then show ?case by (cases m) simp_all
qed

subsection \<open>Evaluating the model on concrete inputs\<close>

lemmas run_defs =
  purchase_defs isValidPurchaseRequest_def calculateTotalAmount_def
  calculateNumSeatsToReserve_def round_double_exact Let_def
  TicketService_new_def ticketService_def init_def request_def
  paymentServiceMock_def paymentServiceMockFalse_def
  reservationServiceMock_def reservationServiceThrowing_def reservationServiceThrowingNull_def
  getNoOfTickets_def getTicketType_def unitPrice_def

lemma request_constructed:
  "TicketTypeRequest_new (JsString (type_name t)) (JsNumber (Finite (of_int n)))
     = Inr (request t n)"
  by (cases t) (simp_all add: TicketTypeRequest_new_def priv_Type_def request_def)

section \<open>The claims\<close>




text \<open>
  C2 (amended). For a positive account id and a request sequence that contains a CHILD or
  INFANT entry but no ADULT entry at all, whatever its quantity, \<open>purchaseTickets\<close> returns 0
  and calls neither \<open>makePayment\<close> nor \<open>reserveSeats\<close>. The validation looks at the types
  of the entries only (\<open>some(request => request.getTicketType() === 'ADULT')\<close>), never at
  the quantity of an ADULT entry.
\<close>

theorem no_adult_entry_rejected:
  assumes "0 < accountId"
    and "list_ex (\<lambda>r. getTicketType r = CHILD \<or> getTicketType r = INFANT) reqs"
    and "\<not> list_ex (\<lambda>r. getTicketType r = ADULT) reqs"
  shows "seatsReturned this accountId reqs s = Inr (IntegerValue 0)
         \<and> callsMade this accountId reqs s = []"
proof -
  have "\<not> isValidPurchaseRequest this reqs"
    using assms(3) by (rule isValidPurchaseRequest_no_adult)
  then show ?thesis
    by (simp add: purchase_rejected_no_calls)
qed

text \<open>The test "should reject purchase without an Adult ticket": one CHILD ticket alone.\<close>

theorem no_adult_entry_rejected_witness:
  "(0::int) < 123
   \<and> list_ex (\<lambda>r. getTicketType r = CHILD \<or> getTicketType r = INFANT) [request CHILD 1]
   \<and> \<not> list_ex (\<lambda>r. getTicketType r = ADULT) [request CHILD 1]
   \<and> seatsReturned ticketService 123 [request CHILD 1] init = Inr (IntegerValue 0)
   \<and> callsMade ticketService 123 [request CHILD 1] init = []"
proof -
  have h1: "(0::int) < 123" by simp
  have h2: "list_ex (\<lambda>r. getTicketType r = CHILD \<or> getTicketType r = INFANT) [request CHILD 1]"
    by (simp add: request_def getTicketType_def)
  have h3: "\<not> list_ex (\<lambda>r. getTicketType r = ADULT) [request CHILD 1]"
    by (simp add: request_def getTicketType_def)
  from no_adult_entry_rejected [OF h1 h2 h3, of ticketService init] h2 h3
  show ?thesis by simp
qed

text \<open>
  C2 as stated fails: the sequence (ADULT, 0), (CHILD, 1) has a CHILD entry and no ADULT entry
  of positive quantity, yet the purchase goes through: 10 is paid and one seat is reserved.
\<close>

theorem zero_quantity_adult_counterexample:
  "seatsReturned ticketService 123 [request ADULT 0, request CHILD 1] init
     = Inr (IntegerValue 1)
   \<and> callsMade ticketService 123 [request ADULT 0, request CHILD 1] init
       = [MakePayment 123 (IntegerValue 10), ReserveSeats 123 (IntegerValue 1)]"
  by (simp add: run_defs)




text \<open>
  C4. An \<open>Error\<close> thrown by a collaborator is caught and logged, and after a throwing
  \<open>makePayment\<close> 0 is returned. After a throwing \<open>reserveSeats\<close> it is not:
  \<open>numSeatsToReserve\<close> is assigned before the call, the catch clause leaves it as it is, and
  the statement after the catch returns it. With account 123, two ADULT tickets, a payment
  that succeeds and a reservation that throws an \<open>Error\<close>, \<open>purchaseTickets\<close> returns 2,
  not 0.
\<close>

theorem reservation_failure_returns_seats:
  "purchaseTickets (TicketService_new paymentServiceMock reservationServiceThrowing) 123
     [request ADULT 2] init
   = (Inr (IntegerValue 2),
      \<lparr>world = (),
       calls = [MakePayment 123 (IntegerValue 40), ReserveSeats 123 (IntegerValue 2)],
       console = [ErrorLine ''An unexpected error occurred: reservation failed'']\<rparr>)"
  by (simp add: run_defs)




text \<open>
  C6. For an account id that is zero or negative and any request sequence, valid or not,
  \<open>purchaseTickets\<close> returns 0 and calls neither \<open>makePayment\<close> nor \<open>reserveSeats\<close>. This
  holds for any service object, whatever its collaborators, prices and cap.
\<close>

theorem bad_account_rejected:
  "accountId \<le> 0 \<Longrightarrow>
     seatsReturned this accountId reqs s = Inr (IntegerValue 0)
     \<and> callsMade this accountId reqs s = []"
  by (simp add: purchase_rejected_no_calls)

text \<open>The test "should reject purchase for invalid account id": account 0, one ADULT ticket.\<close>

theorem bad_account_rejected_witness:
  "(0::int) \<le> 0
   \<and> seatsReturned ticketService 0 [request ADULT 1] init = Inr (IntegerValue 0)
   \<and> callsMade ticketService 0 [request ADULT 1] init = []"
proof -
  have h: "(0::int) \<le> 0" by simp
  from bad_account_rejected [OF h, of ticketService "[request ADULT 1]" init]
  show ?thesis by simp
qed

text \<open>
  C7. For a positive account id and a request sequence that passes validation, if
  \<open>makePayment\<close> returns a falsy value then \<open>purchaseTickets\<close> returns 0 and the only call
  made is that \<open>makePayment\<close>. And, for any input at all, if a \<open>reserveSeats\<close> call is among
  the calls made, then \<open>makePayment\<close> returned a truthy value and the calls made are that
  \<open>makePayment\<close> followed by the \<open>reserveSeats\<close>: payment comes before reservation.
\<close>

theorem payment_failure_no_reservation:
  "(0 < accountId \<and> isValidPurchaseRequest this reqs
      \<and> fst (paymentService this accountId (calculateTotalAmount this reqs) (world s))
          = Returns paid
      \<and> \<not> truthy paid \<longrightarrow>
        seatsReturned this accountId reqs s = Inr (IntegerValue 0)
        \<and> callsMade this accountId reqs s
            = [MakePayment accountId (calculateTotalAmount this reqs)])
   \<and> (ReserveSeats a n \<in> set (callsMade this accountId reqs s) \<longrightarrow>
        (\<exists>v. fst (paymentService this accountId (calculateTotalAmount this reqs) (world s))
                = Returns v \<and> truthy v)
        \<and> callsMade this accountId reqs s
            = [MakePayment accountId (calculateTotalAmount this reqs), ReserveSeats a n])"
proof (cases "0 < accountId \<and> isValidPurchaseRequest this reqs")
  case True
  then have pos: "0 < accountId" and valid: "isValidPurchaseRequest this reqs"
    by simp_all
  show ?thesis
    using purchase_valid [OF pos valid surjective_pairing surjective_pairing, of s]
    by (auto split: outcome.splits if_splits)
next
  case False
  then have "callsMade this accountId reqs s = []"
    using purchase_rejected_no_calls [of accountId this reqs s] by auto
  with False show ?thesis by auto
qed

text \<open>
  The test "should reject purchase without sufficient funds" (\<open>makePayment: () => false\<close>),
  and the same request with a payment that succeeds.
\<close>

theorem payment_failure_no_reservation_witness:
  "(0::int) < 123
   \<and> isValidPurchaseRequest (TicketService_new paymentServiceMockFalse reservationServiceMock)
        [request ADULT 2]
   \<and> \<not> truthy (JsBoolean False)
   \<and> seatsReturned (TicketService_new paymentServiceMockFalse reservationServiceMock) 123
        [request ADULT 2] init = Inr (IntegerValue 0)
   \<and> callsMade (TicketService_new paymentServiceMockFalse reservationServiceMock) 123
        [request ADULT 2] init = [MakePayment 123 (IntegerValue 40)]
   \<and> ReserveSeats 123 (IntegerValue 2)
        \<in> set (callsMade ticketService 123 [request ADULT 2] init)
   \<and> callsMade ticketService 123 [request ADULT 2] init
        = [MakePayment 123 (IntegerValue 40), ReserveSeats 123 (IntegerValue 2)]"
proof -
  let ?failing = "TicketService_new paymentServiceMockFalse reservationServiceMock"
  have valid: "isValidPurchaseRequest ?failing [request ADULT 2]"
    by (simp add: run_defs)
  have amount: "calculateTotalAmount ?failing [request ADULT 2] = IntegerValue 40"
    "calculateTotalAmount ticketService [request ADULT 2] = IntegerValue 40"
    by (simp_all add: run_defs)
  have refused: "fst (paymentService ?failing 123 (IntegerValue 40) (world init))
                   = Returns (JsBoolean False)"
    by (simp add: TicketService_new_def paymentServiceMockFalse_def)
  have reserved: "ReserveSeats 123 (IntegerValue 2)
                    \<in> set (callsMade ticketService 123 [request ADULT 2] init)"
    by (simp add: run_defs)
  from payment_failure_no_reservation
         [of 123 ?failing "[request ADULT 2]" init "JsBoolean False"]
       payment_failure_no_reservation
         [of 123 ticketService "[request ADULT 2]" init _ 123 "IntegerValue 2"]
       valid amount refused reserved
  show ?thesis by simp
qed

text \<open>
  C8 (amended). For a positive account id and a request sequence whose quantities sum to
  zero: if the sequence has no ADULT entry, as the empty sequence, \<open>purchaseTickets\<close> treats
  the purchase as invalid and returns 0 without calling any collaborator; if it has an ADULT
  entry and the quantities are small enough for the sums to be exact, the request passes
  validation and \<open>makePayment\<close> is called with the priced total. When no quantity is negative
  and no collaborator throws a value whose message cannot be read, as \<open>null\<close> or
  \<open>undefined\<close>, the number returned is 0 in both cases. The validation has no test for a total of zero; the empty sequence is rejected by
  the adult rule.
\<close>

theorem zero_total_purchase:
  assumes "0 < accountId" and "(\<Sum>r\<leftarrow>reqs. getNoOfTickets r) = 0"
  shows "(\<not> list_ex (\<lambda>r. getTicketType r = ADULT) reqs \<longrightarrow>
            \<not> isValidPurchaseRequest (TicketService_new pay res) reqs
            \<and> seatsReturned (TicketService_new pay res) accountId reqs s = Inr (IntegerValue 0)
            \<and> callsMade (TicketService_new pay res) accountId reqs s = [])
         \<and> (list_ex (\<lambda>r. getTicketType r = ADULT) reqs
              \<and> 20 * (\<Sum>r\<leftarrow>reqs. \<bar>getNoOfTickets r\<bar>) < 2 ^ 53 \<longrightarrow>
            isValidPurchaseRequest (TicketService_new pay res) reqs
            \<and> hd (callsMade (TicketService_new pay res) accountId reqs s)
                = MakePayment accountId
                    (IntegerValue (\<Sum>r\<leftarrow>reqs. unitPrice (getTicketType r) * getNoOfTickets r))
            \<and> callsMade (TicketService_new pay res) accountId reqs s \<noteq> [])
         \<and> ((\<forall>r\<in>set reqs. 0 \<le> getNoOfTickets r)
              \<and> unreadable (fst (pay accountId (IntegerValue 0) (world s))) = None
              \<and> unreadable (fst (res accountId (IntegerValue 0)
                    (snd (pay accountId (IntegerValue 0) (world s))))) = None \<longrightarrow>
            seatsReturned (TicketService_new pay res) accountId reqs s = Inr (IntegerValue 0))"
proof -
  let ?svc = "TicketService_new pay res"
  have rejected: "seatsReturned ?svc accountId reqs s = Inr (IntegerValue 0)
                  \<and> callsMade ?svc accountId reqs s = []"
    if "\<not> isValidPurchaseRequest ?svc reqs"
    using that by (simp add: purchase_rejected_no_calls)
  have no_adult: "\<not> isValidPurchaseRequest ?svc reqs"
    if "\<not> list_ex (\<lambda>r. getTicketType r = ADULT) reqs"
    using that by (rule isValidPurchaseRequest_no_adult)
  have adult: "isValidPurchaseRequest ?svc reqs
               \<and> hd (callsMade ?svc accountId reqs s)
                   = MakePayment accountId
                       (IntegerValue (\<Sum>r\<leftarrow>reqs. unitPrice (getTicketType r) * getNoOfTickets r))
               \<and> callsMade ?svc accountId reqs s \<noteq> []"
    if has: "list_ex (\<lambda>r. getTicketType r = ADULT) reqs"
      and exact: "20 * (\<Sum>r\<leftarrow>reqs. \<bar>getNoOfTickets r\<bar>) < 2 ^ 53"
  proof -
    have small: "(\<Sum>r\<leftarrow>reqs. \<bar>getNoOfTickets r\<bar>) < 2 ^ 53"
      using sum_abs_le_20 [of getNoOfTickets reqs] exact by simp
    have valid: "isValidPurchaseRequest ?svc reqs"
      using has assms(2) by (simp add: isValidPurchaseRequest_exact [OF small] service_fields)
    show ?thesis
      using purchase_valid [OF assms(1) valid surjective_pairing surjective_pairing, of s] valid
      by (simp add: calculateTotalAmount_exact [OF exact])
  qed
  have zero: "seatsReturned ?svc accountId reqs s = Inr (IntegerValue 0)"
    if nonneg: "\<forall>r\<in>set reqs. 0 \<le> getNoOfTickets r"
      and pay_ok: "unreadable (fst (pay accountId (IntegerValue 0) (world s))) = None"
      and res_ok: "unreadable (fst (res accountId (IntegerValue 0)
                     (snd (pay accountId (IntegerValue 0) (world s))))) = None"
  proof (cases "isValidPurchaseRequest ?svc reqs")
    case False
    then show ?thesis using rejected by simp
  next
    case True
    have all_zero: "\<forall>r\<in>set reqs. getNoOfTickets r = 0"
      using sum_list_nonneg_zero [OF assms(2) nonneg] .
    have exact: "20 * (\<Sum>r\<leftarrow>reqs. \<bar>getNoOfTickets r\<bar>) < 2 ^ 53"
      and small: "(\<Sum>r\<leftarrow>reqs. \<bar>getNoOfTickets r\<bar>) < 2 ^ 53"
      by (simp_all add: all_zero_sums(1) [OF all_zero])
    have amount: "calculateTotalAmount ?svc reqs = IntegerValue 0"
      by (simp add: calculateTotalAmount_exact [OF exact] all_zero_sums(2) [OF all_zero])
    have seats: "calculateNumSeatsToReserve reqs = IntegerValue 0"
      by (simp add: calculateNumSeatsToReserve_exact [OF small] all_zero_sums(3) [OF all_zero])
    have pay: "paymentService ?svc accountId (calculateTotalAmount ?svc reqs) (world s)
                 = (fst (pay accountId (IntegerValue 0) (world s)),
                    snd (pay accountId (IntegerValue 0) (world s)))"
      by (simp add: amount service_fields)
    have res: "reservationService ?svc accountId (calculateNumSeatsToReserve reqs)
                 (snd (pay accountId (IntegerValue 0) (world s)))
               = (fst (res accountId (IntegerValue 0)
                     (snd (pay accountId (IntegerValue 0) (world s)))),
                  snd (res accountId (IntegerValue 0)
                     (snd (pay accountId (IntegerValue 0) (world s)))))"
      by (simp add: seats service_fields)
    show ?thesis
      using purchase_valid [OF assms(1) True pay res] pay_ok res_ok
      by (simp add: seats split: outcome.splits)
  qed
  show ?thesis
    using rejected no_adult adult zero by blast
qed

text \<open>The empty sequence, and the single entry (ADULT, 0).\<close>

theorem zero_total_purchase_witness:
  "(0::int) < 123
   \<and> (\<Sum>r\<leftarrow>[]. getNoOfTickets r) = 0
   \<and> seatsReturned ticketService 123 [] init = Inr (IntegerValue 0)
   \<and> callsMade ticketService 123 [] init = []
   \<and> (\<Sum>r\<leftarrow>[request ADULT 0]. getNoOfTickets r) = 0
   \<and> list_ex (\<lambda>r. getTicketType r = ADULT) [request ADULT 0]
   \<and> 20 * (\<Sum>r\<leftarrow>[request ADULT 0]. \<bar>getNoOfTickets r\<bar>) < 2 ^ 53
   \<and> 0 \<le> getNoOfTickets (request ADULT 0)
   \<and> unreadable (fst (paymentServiceMock 123 (IntegerValue 0) (world init))) = None
   \<and> unreadable (fst (reservationServiceMock 123 (IntegerValue 0) ())) = None
   \<and> isValidPurchaseRequest ticketService [request ADULT 0]
   \<and> hd (callsMade ticketService 123 [request ADULT 0] init) = MakePayment 123 (IntegerValue 0)
   \<and> seatsReturned ticketService 123 [request ADULT 0] init = Inr (IntegerValue 0)"
proof -
  have h1: "(0::int) < 123" by simp
  have h2: "(\<Sum>r\<leftarrow>[]. getNoOfTickets r) = 0" by simp
  have h3: "(\<Sum>r\<leftarrow>[request ADULT 0]. getNoOfTickets r) = 0"
    by (simp add: request_def getNoOfTickets_def)
  have h4: "list_ex (\<lambda>r. getTicketType r = ADULT) [request ADULT 0]"
    by (simp add: request_def getTicketType_def)
  have h5: "\<forall>r\<in>set [request ADULT 0]. 0 \<le> getNoOfTickets r"
    by (simp add: request_def getNoOfTickets_def)
  have h6: "20 * (\<Sum>r\<leftarrow>[request ADULT 0]. \<bar>getNoOfTickets r\<bar>) < 2 ^ 53"
    by (simp add: request_def getNoOfTickets_def)
  have h7: "unreadable (fst (paymentServiceMock 123 (IntegerValue 0) (world init))) = None"
    "unreadable (fst (reservationServiceMock 123 (IntegerValue 0) ())) = None"
    by (simp_all add: paymentServiceMock_def reservationServiceMock_def)
  have price: "(\<Sum>r\<leftarrow>[request ADULT 0]. unitPrice (getTicketType r) * getNoOfTickets r) = 0"
    by (simp add: request_def getNoOfTickets_def)
  from zero_total_purchase [OF h1 h2, of paymentServiceMock reservationServiceMock init]
       zero_total_purchase [OF h1 h3, of paymentServiceMock reservationServiceMock init]
       h3 h4 h5 h6 h7 price
  show ?thesis by (simp add: ticketService_def)
qed

text \<open>
  C8 as stated fails. For the single entry (ADULT, 0) the total is zero, and both collaborators
  are called, with amount 0 and with 0 seats. For (ADULT, -5), (INFANT, 5) the total is zero
  and -5 is returned. For the ADULT quantities \<open>2^53\<close>, 1, \<open>-2^53\<close> and -1 the total is zero
  and so is the priced total, but the doubles pay 12 and reserve -1 seats.
\<close>

theorem zero_total_counterexample:
  "callsMade ticketService 123 [request ADULT 0] init
     = [MakePayment 123 (IntegerValue 0), ReserveSeats 123 (IntegerValue 0)]
   \<and> seatsReturned ticketService 123 [request ADULT (- 5), request INFANT 5] init
     = Inr (IntegerValue (- 5))
   \<and> callsMade ticketService 123
       [request ADULT (2 ^ 53), request ADULT 1, request ADULT (- (2 ^ 53)), request ADULT (- 1)]
       init
     = [MakePayment 123 (IntegerValue 12), ReserveSeats 123 (IntegerValue (- 1))]"
proof -
  have "callsMade ticketService 123 [request ADULT 0] init
     = [MakePayment 123 (IntegerValue 0), ReserveSeats 123 (IntegerValue 0)]"
    by (simp add: run_defs)
  moreover have "seatsReturned ticketService 123 [request ADULT (- 5), request INFANT 5] init
     = Inr (IntegerValue (- 5))"
    by (simp add: run_defs)
  moreover have "callsMade ticketService 123
       [request ADULT (2 ^ 53), request ADULT 1, request ADULT (- (2 ^ 53)), request ADULT (- 1)]
       init
     = [MakePayment 123 (IntegerValue 12), ReserveSeats 123 (IntegerValue (- 1))]"
    by code_simp
  ultimately show ?thesis by simp
qed

text \<open>
  C9. When construction succeeds, \<open>getTicketType\<close> returns the type argument and
  \<open>getNoOfTickets\<close> returns the quantity argument; and these values never change afterwards:
  after any sequence of calls of the members of the class the object is what the constructor
  made, and the two getters still return the two arguments. The fields are private, so
  nothing but the members can reach them, and no member assigns to them.
\<close>

theorem getters_return_arguments:
  "TicketTypeRequest_new type noOfTickets = Inr r \<Longrightarrow>
     JsString (type_name (getTicketType r)) = type
     \<and> JsNumber (Finite (of_int (getNoOfTickets r))) = noOfTickets
     \<and> invoke_all ms r = r
     \<and> fst (invoke GetTicketType (invoke_all ms r)) = type
     \<and> fst (invoke GetNoOfTickets (invoke_all ms r)) = noOfTickets"
proof -
  assume ok: "TicketTypeRequest_new type noOfTickets = Inr r"
  then obtain t where t: "Type_includes priv_Type type = Some t"
    and int: "Number_isInteger noOfTickets"
    and r: "r = \<lparr>priv_type = t, priv_noOfTickets = int_of_js noOfTickets\<rparr>"
    by (auto simp: TicketTypeRequest_new_def split: option.splits if_splits)
  from t have "JsString (type_name t) = type"
    by (cases type) (auto simp: priv_Type_def split: if_splits)
  moreover from int have "JsNumber (Finite (of_int (int_of_js noOfTickets))) = noOfTickets"
    by (cases noOfTickets rule: Number_isInteger.cases) simp_all
  ultimately have "JsString (type_name (getTicketType r)) = type
     \<and> JsNumber (Finite (of_int (getNoOfTickets r))) = noOfTickets"
    by (simp add: r getTicketType_def getNoOfTickets_def)
  then show ?thesis
    by (simp add: invoke_all_unchanged)
qed

text \<open>Three CHILD tickets, read three times.\<close>

theorem getters_return_arguments_witness:
  "TicketTypeRequest_new (JsString ''CHILD'') (JsNumber (Finite 3)) = Inr (request CHILD 3)
   \<and> JsString (type_name (getTicketType (request CHILD 3))) = JsString ''CHILD''
   \<and> JsNumber (Finite (of_int (getNoOfTickets (request CHILD 3)))) = JsNumber (Finite 3)
   \<and> invoke_all [GetTicketType, GetNoOfTickets, GetTicketType] (request CHILD 3)
       = request CHILD 3
   \<and> fst (invoke GetNoOfTickets
        (invoke_all [GetTicketType, GetNoOfTickets, GetTicketType] (request CHILD 3)))
       = JsNumber (Finite 3)"
proof -
  have h: "TicketTypeRequest_new (JsString ''CHILD'') (JsNumber (Finite 3)) = Inr (request CHILD 3)"
    using request_constructed [of CHILD 3] by simp
  from getters_return_arguments [OF h, of "[GetTicketType, GetNoOfTickets, GetTicketType]"] h
  show ?thesis by simp
qed

text \<open>
  C10. The request (ADULT, -5) can be constructed and, for account 1, passes validation:
  the total -5 is below the cap and an ADULT entry is present. \<open>purchaseTickets\<close> then calls
  \<open>makePayment\<close> with the amount -100 and, if the payment returns a truthy value, returns
  the seat count -5, for every pair of collaborators; only a \<open>reserveSeats\<close> that throws
  a value whose message cannot be read, as \<open>null\<close> or \<open>undefined\<close>, makes it end with what
  the catch clause throws instead.
\<close>

theorem negative_quantity_purchase:
  "TicketTypeRequest_new (JsString ''ADULT'') (JsNumber (Finite (- 5))) = Inr (request ADULT (- 5))
   \<and> isValidPurchaseRequest (TicketService_new pay res) [request ADULT (- 5)]
   \<and> hd (callsMade (TicketService_new pay res) 1 [request ADULT (- 5)] s)
       = MakePayment 1 (IntegerValue (- 100))
   \<and> callsMade (TicketService_new pay res) 1 [request ADULT (- 5)] s \<noteq> []
   \<and> (fst (pay 1 (IntegerValue (- 100)) (world s)) = Returns paid \<and> truthy paid \<longrightarrow>
        seatsReturned (TicketService_new pay res) 1 [request ADULT (- 5)] s
          = (case unreadable (fst (res 1 (IntegerValue (- 5))
                     (snd (pay 1 (IntegerValue (- 100)) (world s))))) of
               None \<Rightarrow> Inr (IntegerValue (- 5))
             | Some e \<Rightarrow> Inl e))"
proof -
  let ?svc = "TicketService_new pay res"
  let ?reqs = "[request ADULT (- 5)]"
  have built: "TicketTypeRequest_new (JsString ''ADULT'') (JsNumber (Finite (- 5)))
                 = Inr (request ADULT (- 5))"
    by (simp add: TicketTypeRequest_new_def priv_Type_def request_def)
  have exact: "20 * (\<Sum>r\<leftarrow>?reqs. \<bar>getNoOfTickets r\<bar>) < 2 ^ 53"
    and small: "(\<Sum>r\<leftarrow>?reqs. \<bar>getNoOfTickets r\<bar>) < 2 ^ 53"
    by (simp_all add: request_def getNoOfTickets_def)
  have valid: "isValidPurchaseRequest ?svc ?reqs"
    unfolding isValidPurchaseRequest_exact [OF small]
    by (simp add: service_fields request_def getNoOfTickets_def getTicketType_def)
  have amount: "calculateTotalAmount ?svc ?reqs = IntegerValue (- 100)"
    unfolding calculateTotalAmount_exact [OF exact]
    by (simp add: unitPrice_def request_def getNoOfTickets_def getTicketType_def)
  have seats: "calculateNumSeatsToReserve ?reqs = IntegerValue (- 5)"
    unfolding calculateNumSeatsToReserve_exact [OF small]
    by (simp add: request_def getNoOfTickets_def getTicketType_def)
  have pos: "(0::int) < 1" by simp
  have pay: "paymentService ?svc 1 (calculateTotalAmount ?svc ?reqs) (world s)
               = (fst (pay 1 (IntegerValue (- 100)) (world s)),
                  snd (pay 1 (IntegerValue (- 100)) (world s)))"
    by (simp add: amount service_fields)
  have res: "reservationService ?svc 1 (calculateNumSeatsToReserve ?reqs)
               (snd (pay 1 (IntegerValue (- 100)) (world s)))
             = (fst (res 1 (IntegerValue (- 5)) (snd (pay 1 (IntegerValue (- 100)) (world s)))),
                snd (res 1 (IntegerValue (- 5)) (snd (pay 1 (IntegerValue (- 100)) (world s)))))"
    by (simp add: seats service_fields)
  show ?thesis
    using purchase_valid [OF pos valid pay res] built valid
    by (auto simp: amount seats split: outcome.splits option.splits)
qed

text \<open>With the collaborators of the test suite, -100 is paid and -5 seats are reserved.\<close>

theorem negative_quantity_purchase_witness:
  "fst (paymentServiceMock 1 (IntegerValue (- 100)) (world init)) = Returns (JsBoolean True)
   \<and> truthy (JsBoolean True)
   \<and> callsMade ticketService 1 [request ADULT (- 5)] init
       = [MakePayment 1 (IntegerValue (- 100)), ReserveSeats 1 (IntegerValue (- 5))]
   \<and> seatsReturned ticketService 1 [request ADULT (- 5)] init = Inr (IntegerValue (- 5))"
proof -
  have h: "fst (paymentServiceMock 1 (IntegerValue (- 100)) (world init))
             = Returns (JsBoolean True)
           \<and> truthy (JsBoolean True)"
    by (simp add: paymentServiceMock_def)
  have made: "callsMade ticketService 1 [request ADULT (- 5)] init
       = [MakePayment 1 (IntegerValue (- 100)), ReserveSeats 1 (IntegerValue (- 5))]"
    by (simp add: run_defs)
  have readable: "unreadable (fst (reservationServiceMock 1 (IntegerValue (- 5))
                    (snd (paymentServiceMock 1 (IntegerValue (- 100)) (world init))))) = None"
    by (simp add: reservationServiceMock_def)
  from negative_quantity_purchase
         [of paymentServiceMock reservationServiceMock init "JsBoolean True"] h made readable
  show ?thesis by (simp add: ticketService_def)
qed

end
